theory Spec2Isabelle
  imports Complex_Main "HOL-Library.Sublist" "HOL-Library.AList"
begin

section \<open>Python values and the primitives the ledger uses\<close>

text \<open>
  The ledger of \<^verbatim>\<open>speedmeter.py\<close> is a plain Python dictionary that is filled either by
  the program itself or by \<^verbatim>\<open>json.load\<close>. Python does not enforce the annotation
  \<^verbatim>\<open>Dict[str, Dict[str, int]]\<close>, so the model keeps the values that JSON can deliver:
  \<^verbatim>\<open>None\<close>, booleans, integers (unbounded), strings, lists and dictionaries with string
  keys. A dictionary is an association list in insertion order. JSON numbers with a
  fraction or an exponent (Python floats) are not part of the model.
\<close>

datatype pyobj =
    PNone
  | PBool bool
  | PInt int
  | PStr string
  | PList "pyobj list"
  | PDict "(string \<times> pyobj) list"

datatype pyerr =
    TypeError
  | AttributeError
  | KeyError
  | OSError
  | JSONDecodeError

text \<open>\<^verbatim>\<open>key in obj\<close> for a string key.\<close>

fun py_contains :: "pyobj \<Rightarrow> string \<Rightarrow> pyerr + bool" where
  "py_contains (PDict kvs) k = Inr (map_of kvs k \<noteq> None)"
| "py_contains (PList xs) k = Inr (PStr k \<in> set xs)"
| "py_contains (PStr s) k = Inr (sublist k s)"
| "py_contains _ k = Inl TypeError"

text \<open>\<^verbatim>\<open>obj[key]\<close> for a string key.\<close>

fun py_getitem :: "pyobj \<Rightarrow> string \<Rightarrow> pyerr + pyobj" where
  "py_getitem (PDict kvs) k = (case map_of kvs k of None \<Rightarrow> Inl KeyError | Some v \<Rightarrow> Inr v)"
| "py_getitem _ k = Inl TypeError"

text \<open>\<^verbatim>\<open>obj[key] = v\<close> for a string key: an existing key keeps its place, a new key goes last.\<close>

fun py_setitem :: "pyobj \<Rightarrow> string \<Rightarrow> pyobj \<Rightarrow> pyerr + pyobj" where
  "py_setitem (PDict kvs) k v = Inr (PDict (AList.update k v kvs))"
| "py_setitem _ k v = Inl TypeError"

text \<open>\<^verbatim>\<open>obj.get(key, default)\<close>.\<close>

fun py_get :: "pyobj \<Rightarrow> string \<Rightarrow> pyobj \<Rightarrow> pyerr + pyobj" where
  "py_get (PDict kvs) k d = (case map_of kvs k of None \<Rightarrow> Inr d | Some v \<Rightarrow> Inr v)"
| "py_get _ k d = Inl AttributeError"

text \<open>\<^verbatim>\<open>obj.items()\<close>.\<close>

fun py_items :: "pyobj \<Rightarrow> pyerr + (string \<times> pyobj) list" where
  "py_items (PDict kvs) = Inr kvs"
| "py_items _ = Inl AttributeError"

text \<open>
  \<^verbatim>\<open>n + obj\<close> and \<^verbatim>\<open>obj + n\<close> for an integer \<open>n\<close>: defined for integers and for booleans
  (\<^verbatim>\<open>True\<close> counts as 1), a \<^verbatim>\<open>TypeError\<close> for every other value of the model.
\<close>

fun py_add_int :: "pyobj \<Rightarrow> int \<Rightarrow> pyerr + int" where
  "py_add_int (PInt m) n = Inr (m + n)"
| "py_add_int (PBool b) n = Inr ((if b then 1 else 0) + n)"
| "py_add_int _ n = Inl TypeError"

section \<open>Date keys\<close>

text \<open>
  Only the calendar date of a \<^verbatim>\<open>datetime\<close> matters to the ledger. Python keeps
  \<open>1 \<le> year \<le> 9999\<close>, \<open>1 \<le> month \<le> 12\<close> and \<open>1 \<le> day \<le> 31\<close>; \<^verbatim>\<open>%Y\<close> prints four
  digits and \<^verbatim>\<open>%m\<close>, \<^verbatim>\<open>%d\<close> two, padded with zeros.
\<close>

record datetime =
  year :: nat
  month :: nat
  day :: nat

definition digit :: "nat \<Rightarrow> char" where
  "digit n = ''0123456789'' ! (n mod 10)"

definition pad2 :: "nat \<Rightarrow> string" where
  "pad2 n = [digit (n div 10), digit n]"

definition pad4 :: "nat \<Rightarrow> string" where
  "pad4 n = [digit (n div 1000), digit (n div 100), digit (n div 10), digit n]"

text \<open>
  \<^verbatim>\<open>dt = dt or datetime.datetime.now()\<close>: the first argument is the clock, read only when
  the caller passes no date.
\<close>

definition today_key :: "datetime \<Rightarrow> datetime option \<Rightarrow> string" where
  "today_key clock dt =
     (let d = (case dt of None \<Rightarrow> clock | Some x \<Rightarrow> x)
      in pad4 (year d) @ ''-'' @ pad2 (month d) @ ''-'' @ pad2 (day d))"

definition month_key :: "datetime \<Rightarrow> datetime option \<Rightarrow> string" where
  "month_key clock dt =
     (let d = (case dt of None \<Rightarrow> clock | Some x \<Rightarrow> x)
      in pad4 (year d) @ ''-'' @ pad2 (month d))"

section \<open>Usage ledger\<close>

record UsageTotals =
  download_bytes :: pyobj
  upload_bytes :: pyobj

record UsageStore =
  by_day :: pyobj

definition zero_day :: pyobj where
  "zero_day = PDict [(''down'', PInt 0), (''up'', PInt 0)]"

text \<open>
  A method of the store returns what it returns or raises, together with the store as
  the call leaves it (an exception keeps the writes made before it).
\<close>

type_synonym 'a outcome = "(pyerr + 'a) \<times> UsageStore"

text \<open>
  \<^verbatim>\<open>by_day[dkey][field] += n\<close>: reads the day's dictionary, reads the field, adds, and
  writes the field of that same dictionary.
\<close>

definition iadd_field :: "pyobj \<Rightarrow> string \<Rightarrow> string \<Rightarrow> int \<Rightarrow> pyerr + pyobj" where
  "iadd_field bd dkey fld n =
     (case py_getitem bd dkey of Inl e \<Rightarrow> Inl e | Inr d \<Rightarrow>
     (case py_getitem d fld of Inl e \<Rightarrow> Inl e | Inr old \<Rightarrow>
     (case py_add_int old n of Inl e \<Rightarrow> Inl e | Inr new \<Rightarrow>
     (case py_setitem d fld (PInt new) of Inl e \<Rightarrow> Inl e | Inr d' \<Rightarrow>
      py_setitem bd dkey d'))))"

definition add_usage :: "UsageStore \<Rightarrow> datetime \<Rightarrow> int \<Rightarrow> int \<Rightarrow> unit outcome" where
  "add_usage s dt down_delta up_delta =
     (let dkey = today_key dt (Some dt) in
     (case py_contains (by_day s) dkey of Inl e \<Rightarrow> (Inl e, s) | Inr present \<Rightarrow>
     (case (if present then Inr (by_day s) else py_setitem (by_day s) dkey zero_day) of
        Inl e \<Rightarrow> (Inl e, s) | Inr bd1 \<Rightarrow>
     (case iadd_field bd1 dkey ''down'' (max 0 down_delta) of
        Inl e \<Rightarrow> (Inl e, s\<lparr>by_day := bd1\<rparr>) | Inr bd2 \<Rightarrow>
     (case iadd_field bd2 dkey ''up'' (max 0 up_delta) of
        Inl e \<Rightarrow> (Inl e, s\<lparr>by_day := bd2\<rparr>) | Inr bd3 \<Rightarrow>
      (Inr (), s\<lparr>by_day := bd3\<rparr>))))))"

text \<open>The body of \<^verbatim>\<open>get_today\<close> once the day key is known.\<close>

definition totals_at :: "pyobj \<Rightarrow> string \<Rightarrow> pyerr + UsageTotals" where
  "totals_at bd dkey =
     (case py_contains bd dkey of Inl e \<Rightarrow> Inl e | Inr present \<Rightarrow>
      if present then
        (case py_getitem bd dkey of Inl e \<Rightarrow> Inl e | Inr d \<Rightarrow>
        (case py_get d ''down'' (PInt 0) of Inl e \<Rightarrow> Inl e | Inr dn \<Rightarrow>
        (case py_get d ''up'' (PInt 0) of Inl e \<Rightarrow> Inl e | Inr u \<Rightarrow>
         Inr \<lparr>download_bytes = dn, upload_bytes = u\<rparr>)))
      else Inr \<lparr>download_bytes = PInt 0, upload_bytes = PInt 0\<rparr>)"

definition get_today :: "UsageStore \<Rightarrow> datetime \<Rightarrow> datetime option \<Rightarrow> UsageTotals outcome" where
  "get_today s clock dt = (totals_at (by_day s) (today_key clock dt), s)"

text \<open>The loop of \<^verbatim>\<open>get_month\<close> over \<^verbatim>\<open>by_day.items()\<close>, with its two running totals.\<close>

fun month_loop :: "string \<Rightarrow> (string \<times> pyobj) list \<Rightarrow> int \<Rightarrow> int \<Rightarrow> pyerr + int \<times> int" where
  "month_loop mkey [] total_down total_up = Inr (total_down, total_up)"
| "month_loop mkey ((dkey, vals) # rest) total_down total_up =
     (if prefix mkey dkey then
        (case py_get vals ''down'' (PInt 0) of Inl e \<Rightarrow> Inl e | Inr dn \<Rightarrow>
        (case py_add_int dn total_down of Inl e \<Rightarrow> Inl e | Inr td \<Rightarrow>
        (case py_get vals ''up'' (PInt 0) of Inl e \<Rightarrow> Inl e | Inr u \<Rightarrow>
        (case py_add_int u total_up of Inl e \<Rightarrow> Inl e | Inr tu \<Rightarrow>
         month_loop mkey rest td tu))))
      else month_loop mkey rest total_down total_up)"

text \<open>The body of \<^verbatim>\<open>get_month\<close> once the month key is known.\<close>

definition month_totals :: "pyobj \<Rightarrow> string \<Rightarrow> pyerr + UsageTotals" where
  "month_totals bd mkey =
     (case py_items bd of Inl e \<Rightarrow> Inl e | Inr items \<Rightarrow>
     (case month_loop mkey items 0 0 of Inl e \<Rightarrow> Inl e | Inr (td, tu) \<Rightarrow>
      Inr \<lparr>download_bytes = PInt td, upload_bytes = PInt tu\<rparr>))"

definition get_month :: "UsageStore \<Rightarrow> datetime \<Rightarrow> datetime option \<Rightarrow> UsageTotals outcome" where
  "get_month s clock dt = (month_totals (by_day s) (month_key clock dt), s)"

definition clear_today :: "UsageStore \<Rightarrow> datetime \<Rightarrow> datetime option \<Rightarrow> unit outcome" where
  "clear_today s clock dt =
     (let dkey = today_key clock dt in
     (case py_contains (by_day s) dkey of Inl e \<Rightarrow> (Inl e, s) | Inr present \<Rightarrow>
      if present then
        (case py_setitem (by_day s) dkey zero_day of
           Inl e \<Rightarrow> (Inl e, s) | Inr bd \<Rightarrow> (Inr (), s\<lparr>by_day := bd\<rparr>))
      else (Inr (), s)))"

definition to_json :: "UsageStore \<Rightarrow> pyobj" where
  "to_json s = PDict [(''by_day'', by_day s)]"

text \<open>
  \<^verbatim>\<open>UsageStore(by_day=data.get("by_day", {}))\<close>: the dataclass stores the value as it is.
\<close>

definition from_json :: "pyobj \<Rightarrow> pyerr + UsageStore" where
  "from_json data =
     (case py_get data ''by_day'' (PDict []) of Inl e \<Rightarrow> Inl e | Inr bd \<Rightarrow> Inr \<lparr>by_day = bd\<rparr>)"

definition empty_store :: UsageStore where
  "empty_store = \<lparr>by_day = PDict []\<rparr>"

text \<open>
  The ledgers the annotation \<^verbatim>\<open>Dict[str, Dict[str, int]]\<close> describes: a dictionary (no key
  twice) of dictionaries whose values are integers.
\<close>

definition day_ok :: "pyobj \<Rightarrow> bool" where
  "day_ok v = (case v of
       PDict fs \<Rightarrow> distinct (map fst fs) \<and> list_all (\<lambda>(f, x). case x of PInt n \<Rightarrow> True | _ \<Rightarrow> False) fs
     | _ \<Rightarrow> False)"

definition ledger_ok :: "UsageStore \<Rightarrow> bool" where
  "ledger_ok s = (case by_day s of
       PDict kvs \<Rightarrow> distinct (map fst kvs) \<and> list_all (\<lambda>(k, v). day_ok v) kvs
     | _ \<Rightarrow> False)"

section \<open>Usage repository\<close>

text \<open>
  The file system as the repository sees it. A path holds a regular file or something
  that exists but cannot be opened (a directory, a file without permission). A regular
  file holds text of type \<open>'f\<close>, or \<open>None\<close> while it is empty or cut short. When the
  volume is not writable (disk full, read-only, no permission) opening for writing and
  renaming raise \<^verbatim>\<open>OSError\<close>.
\<close>

datatype 'f node = File "'f option" | Special

record 'f filesystem =
  nodes :: "string \<rightharpoonup> 'f node"
  writable :: bool

text \<open>
  \<^verbatim>\<open>json.dump\<close> and \<^verbatim>\<open>json.load\<close> belong to the Python library; the repository takes them
  as given.
\<close>

record 'f json_codec =
  json_dump :: "pyobj \<Rightarrow> pyerr + 'f"
  json_load :: "'f \<Rightarrow> pyerr + pyobj"

definition path_exists :: "'f filesystem \<Rightarrow> string \<Rightarrow> bool" where
  "path_exists fs p = (nodes fs p \<noteq> None)"

definition open_read :: "'f filesystem \<Rightarrow> string \<Rightarrow> pyerr + 'f option" where
  "open_read fs p = (case nodes fs p of
       None \<Rightarrow> Inl OSError
     | Some Special \<Rightarrow> Inl OSError
     | Some (File c) \<Rightarrow> Inr c)"

text \<open>\<^verbatim>\<open>open(p, "w")\<close> creates the file or empties it.\<close>

definition open_write :: "'f filesystem \<Rightarrow> string \<Rightarrow> pyerr + 'f filesystem" where
  "open_write fs p =
     (if \<not> writable fs then Inl OSError
      else case nodes fs p of
          Some Special \<Rightarrow> Inl OSError
        | _ \<Rightarrow> Inr (fs\<lparr>nodes := (nodes fs)(p \<mapsto> File None)\<rparr>))"

definition os_replace :: "'f filesystem \<Rightarrow> string \<Rightarrow> string \<Rightarrow> pyerr + 'f filesystem" where
  "os_replace fs src dst =
     (if \<not> writable fs then Inl OSError
      else case nodes fs src of
          None \<Rightarrow> Inl OSError
        | Some n \<Rightarrow>
            (case nodes fs dst of
               Some Special \<Rightarrow> Inl OSError
             | _ \<Rightarrow> Inr (fs\<lparr>nodes := ((nodes fs)(src := None))(dst \<mapsto> n)\<rparr>)))"

text \<open>The \<^verbatim>\<open>try\<close> block of \<^verbatim>\<open>UsageRepository.load\<close>.\<close>

definition load_try :: "'f json_codec \<Rightarrow> string \<Rightarrow> 'f filesystem \<Rightarrow> pyerr + UsageStore" where
  "load_try codec path fs =
     (case open_read fs path of Inl e \<Rightarrow> Inl e | Inr content \<Rightarrow>
     (case (case content of None \<Rightarrow> Inl JSONDecodeError | Some text \<Rightarrow> json_load codec text) of
        Inl e \<Rightarrow> Inl e | Inr data \<Rightarrow>
      from_json data))"

definition load :: "'f json_codec \<Rightarrow> string \<Rightarrow> 'f filesystem \<Rightarrow> pyerr + UsageStore" where
  "load codec path fs =
     (if \<not> path_exists fs path then Inr empty_store
      else case load_try codec path fs of
          Inl e \<Rightarrow> Inr empty_store
        | Inr s \<Rightarrow> Inr s)"

definition save ::
  "'f json_codec \<Rightarrow> string \<Rightarrow> 'f filesystem \<Rightarrow> UsageStore \<Rightarrow> (pyerr + unit) \<times> 'f filesystem" where
  "save codec path fs s =
     (let tmp = path @ ''.tmp'' in
     (case open_write fs tmp of Inl e \<Rightarrow> (Inl e, fs) | Inr fs1 \<Rightarrow>
     (case json_dump codec (to_json s) of Inl e \<Rightarrow> (Inl e, fs1) | Inr text \<Rightarrow>
     (let fs2 = fs1\<lparr>nodes := (nodes fs1)(tmp \<mapsto> File (Some text))\<rparr> in
     (case os_replace fs2 tmp path of Inl e \<Rightarrow> (Inl e, fs2) | Inr fs3 \<Rightarrow>
      (Inr (), fs3))))))"

section \<open>Network monitor\<close>

record Config =
  smoothing_seconds :: real
  nic_name :: "string option"

text \<open>The two counters of a \<^verbatim>\<open>psutil\<close> reading that the monitor uses.\<close>

record snetio =
  bytes_sent :: int
  bytes_recv :: int

type_synonym counters = "string \<rightharpoonup> snetio"

record NetMonitor =
  interval :: real
  last_pernic :: "string \<rightharpoonup> int \<times> int"
  included_ifaces :: "string list"
  last_iface_refresh :: real
  current_down_bps :: real
  current_up_bps :: real
  ema_down_bps :: "real option"
  ema_up_bps :: "real option"
  config :: Config
  hist_down :: "(real \<times> real) list"
  hist_up :: "(real \<times> real) list"
  avg_down_bps_10s :: real
  avg_up_bps_10s :: real
  store :: UsageStore

text \<open>A step of the monitor returns or raises, and leaves the monitor as it is then.\<close>

type_synonym step = "(pyerr + unit) \<times> NetMonitor"

subsection \<open>Interface selection\<close>

definition exclude_prefixes :: "string list" where
  "exclude_prefixes =
     [''Loopback'', ''Software Loopback'', ''isatap'', ''Teredo'', ''vEthernet'', ''VMware'',
      ''VirtualBox'', ''Npcap'', ''NPF_'', ''WAN Miniport'', ''Bluetooth'', ''Hyper-V'']"

text \<open>\<^verbatim>\<open>name.startswith(prefixes)\<close> with a tuple of prefixes.\<close>

definition startswith_any :: "string \<Rightarrow> string list \<Rightarrow> bool" where
  "startswith_any name ps = list_ex (\<lambda>p. prefix p name) ps"

text \<open>
  The first loop of \<^verbatim>\<open>_refresh_ifaces\<close> over \<^verbatim>\<open>stats.items()\<close>; a set in the source, here
  the list of its members in the order of the dictionary.
\<close>

fun filter_ifaces :: "(string \<times> bool) list \<Rightarrow> counters \<Rightarrow> string list" where
  "filter_ifaces [] all_counters = []"
| "filter_ifaces ((name, isup) # rest) all_counters =
     (if \<not> isup then filter_ifaces rest all_counters
      else if startswith_any name exclude_prefixes then filter_ifaces rest all_counters
      else if all_counters name \<noteq> None then name # filter_ifaces rest all_counters
      else filter_ifaces rest all_counters)"

text \<open>\<^verbatim>\<open>if self.config.nic_name and self.config.nic_name in included\<close>.\<close>

definition pin_ifaces :: "Config \<Rightarrow> string list \<Rightarrow> string list" where
  "pin_ifaces cfg included =
     (case nic_name cfg of
        None \<Rightarrow> included
      | Some n \<Rightarrow> if n \<noteq> [] \<and> n \<in> set included then [n] else included)"

fun seed_last ::
  "counters \<Rightarrow> string list \<Rightarrow> (string \<rightharpoonup> int \<times> int) \<Rightarrow> (string \<rightharpoonup> int \<times> int)" where
  "seed_last all_counters [] base = base"
| "seed_last all_counters (name # rest) base =
     (case all_counters name of
        Some c \<Rightarrow>
          if base name = None
          then seed_last all_counters rest (base(name \<mapsto> (bytes_recv c, bytes_sent c)))
          else seed_last all_counters rest base
      | None \<Rightarrow> seed_last all_counters rest base)"

text \<open>
  \<^verbatim>\<open>_refresh_ifaces\<close>; the two arguments are what \<^verbatim>\<open>psutil.net_if_stats()\<close> and
  \<^verbatim>\<open>psutil.net_io_counters(pernic=True)\<close> return or raise.
\<close>

definition refresh_ifaces ::
  "NetMonitor \<Rightarrow> pyerr + (string \<times> bool) list \<Rightarrow> pyerr + counters \<Rightarrow> step" where
  "refresh_ifaces m stats_read counters_read =
     (case stats_read of Inl e \<Rightarrow> (Inl e, m) | Inr stats \<Rightarrow>
     (case counters_read of Inl e \<Rightarrow> (Inl e, m) | Inr all_counters \<Rightarrow>
     (let included = pin_ifaces (config m) (filter_ifaces stats all_counters);
          seeded = seed_last all_counters included (last_pernic m)
      in (Inr (), m\<lparr>last_pernic := seeded |` set included, included_ifaces := included\<rparr>))))"

subsection \<open>One tick of the sampling loop\<close>

text \<open>What the world hands to one tick.\<close>

record tick_env =
  now :: real
  stats_read :: "pyerr + (string \<times> bool) list"
  refresh_read :: "pyerr + counters"
  pernic_read :: "pyerr + counters"
  clock_now :: datetime
  disk_writable :: bool

text \<open>The loop over \<^verbatim>\<open>self._included_ifaces\<close>, with the baselines and the two running sums.\<close>

fun delta_loop ::
  "counters \<Rightarrow> string list \<Rightarrow> (string \<rightharpoonup> int \<times> int) \<Rightarrow> int \<Rightarrow> int \<Rightarrow>
   (string \<rightharpoonup> int \<times> int) \<times> int \<times> int" where
  "delta_loop pernic [] base down_delta up_delta = (base, down_delta, up_delta)"
| "delta_loop pernic (name # rest) base down_delta up_delta =
     (case pernic name of
        None \<Rightarrow> delta_loop pernic rest base down_delta up_delta
      | Some c \<Rightarrow>
          let prev = (case base name of None \<Rightarrow> (bytes_recv c, bytes_sent c) | Some p \<Rightarrow> p);
              d_down = max 0 (bytes_recv c - fst prev);
              d_up = max 0 (bytes_sent c - snd prev)
          in delta_loop pernic rest (base(name \<mapsto> (bytes_recv c, bytes_sent c)))
               (down_delta + d_down) (up_delta + d_up))"

text \<open>Lines 342 to 356: smoothing. Rates are real numbers in the model.\<close>

definition ema_update :: "NetMonitor \<Rightarrow> real \<Rightarrow> real \<Rightarrow> step" where
  "ema_update m raw_down_bps raw_up_bps =
     (let s = max 0 (smoothing_seconds (config m)) in
      if s > 0 then
        (let alpha = min 1 (max (1 / 100) (interval m / s)) in
         case ema_down_bps m of
           None \<Rightarrow>
             (Inr (), m\<lparr>ema_down_bps := Some raw_down_bps, ema_up_bps := Some raw_up_bps,
                        current_down_bps := raw_down_bps, current_up_bps := raw_up_bps\<rparr>)
         | Some ed \<Rightarrow>
             (let nd = alpha * raw_down_bps + (1 - alpha) * ed in
              case ema_up_bps m of
                None \<Rightarrow> (Inl TypeError, m\<lparr>ema_down_bps := Some nd\<rparr>)
              | Some eu \<Rightarrow>
                  (let nu = alpha * raw_up_bps + (1 - alpha) * eu in
                   (Inr (), m\<lparr>ema_down_bps := Some nd, ema_up_bps := Some nu,
                              current_down_bps := nd, current_up_bps := nu\<rparr>))))
      else (Inr (), m\<lparr>current_down_bps := raw_down_bps, current_up_bps := raw_up_bps\<rparr>))"

text \<open>Lines 358 to 374: the rolling window of one direction.\<close>

fun evict :: "real \<Rightarrow> (real \<times> real) list \<Rightarrow> (real \<times> real) list" where
  "evict tcut [] = []"
| "evict tcut ((t, v) # rest) = (if t < tcut then evict tcut rest else (t, v) # rest)"

definition window_avg :: "(real \<times> real) list \<Rightarrow> real" where
  "window_avg hist = (if hist \<noteq> [] then sum_list (map snd hist) / real (length hist) else 0)"

definition rolling_update :: "NetMonitor \<Rightarrow> real \<Rightarrow> real \<Rightarrow> real \<Rightarrow> NetMonitor" where
  "rolling_update m t raw_down_bps raw_up_bps =
     (let tcut = t - 10;
          hd' = evict tcut (hist_down m @ [(t, raw_down_bps)]);
          hu' = evict tcut (hist_up m @ [(t, raw_up_bps)])
      in m\<lparr>hist_down := hd', hist_up := hu',
           avg_down_bps_10s := window_avg hd', avg_up_bps_10s := window_avg hu'\<rparr>)"

text \<open>\<^verbatim>\<open>int(x)\<close> on a float cuts towards zero.\<close>

definition py_int :: "real \<Rightarrow> int" where
  "py_int x = (if 0 \<le> x then \<lfloor>x\<rfloor> else \<lceil>x\<rceil>)"

text \<open>
  The callback gets the rates and the store; whatever it raises is caught. It is a
  function of what it is given, \<open>None\<close> when no callback is registered.
\<close>

type_synonym callback = "(real \<Rightarrow> real \<Rightarrow> UsageStore \<Rightarrow> pyerr + unit) option"

definition notify :: "callback \<Rightarrow> NetMonitor \<Rightarrow> pyerr + unit" where
  "notify on_update m =
     (case on_update of
        None \<Rightarrow> Inr ()
      | Some f \<Rightarrow>
          (case f (current_down_bps m) (current_up_bps m) (store m) of
             Inl e \<Rightarrow> Inr ()
           | Inr u \<Rightarrow> Inr ()))"

text \<open>
  The body of the \<^verbatim>\<open>while\<close> loop of \<^verbatim>\<open>NetMonitor.run\<close>, from the wake-up after
  \<^verbatim>\<open>time.sleep\<close> to the callback. \<open>last_time\<close> is the local variable of \<^verbatim>\<open>run\<close>.
\<close>

definition tick ::
  "'f json_codec \<Rightarrow> string \<Rightarrow> callback \<Rightarrow> real \<Rightarrow> tick_env \<Rightarrow> NetMonitor \<times> 'f filesystem \<Rightarrow>
   (pyerr + unit) \<times> NetMonitor \<times> 'f filesystem" where
  "tick codec path on_update last_time env st =
     (let m0 = fst st;
          fs = (snd st)\<lparr>writable := disk_writable env\<rparr>;
          elapsed = max (1 / 1000000) (now env - last_time)
      in
     (case (if now env - last_iface_refresh m0 > 10
            then (case refresh_ifaces m0 (stats_read env) (refresh_read env) of
                    (Inl e, m) \<Rightarrow> (Inl e, m)
                  | (Inr u, m) \<Rightarrow> (Inr (), m\<lparr>last_iface_refresh := now env\<rparr>))
            else (Inr (), m0)) of
        (Inl e, m1) \<Rightarrow> (Inl e, m1, fs)
      | (Inr u, m1) \<Rightarrow>
     (case pernic_read env of
        Inl e \<Rightarrow> (Inl e, m1, fs)
      | Inr pernic \<Rightarrow>
     (case delta_loop pernic (included_ifaces m1) (last_pernic m1) 0 0 of
        (base, down_delta, up_delta) \<Rightarrow>
     (let m2 = m1\<lparr>last_pernic := base\<rparr>;
          raw_down_bps = max 0 (real_of_int down_delta / elapsed);
          raw_up_bps = max 0 (real_of_int up_delta / elapsed)
      in
     (case ema_update m2 raw_down_bps raw_up_bps of
        (Inl e, m3) \<Rightarrow> (Inl e, m3, fs)
      | (Inr u, m3) \<Rightarrow>
     (let m4 = rolling_update m3 (now env) raw_down_bps raw_up_bps in
     (case add_usage (store m4) (clock_now env) down_delta up_delta of
        (Inl e, s5) \<Rightarrow> (Inl e, m4\<lparr>store := s5\<rparr>, fs)
      | (Inr u, s5) \<Rightarrow>
     (let m5 = m4\<lparr>store := s5\<rparr> in
     (case (if py_int (now env) mod 10 = 0 then save codec path fs (store m5) else (Inr (), fs)) of
        (Inl e, fs6) \<Rightarrow> (Inl e, m5, fs6)
      | (Inr u, fs6) \<Rightarrow>
     (case notify on_update m5 of
        Inl e \<Rightarrow> (Inl e, m5, fs6)
      | Inr u \<Rightarrow> (Inr (), m5, fs6))))))))))))"

text \<open>
  The \<^verbatim>\<open>while\<close> loop: one tick for each entry of the list, which holds what the world
  hands to the ticks that begin before the stop event is set. An exception leaves the
  loop at once.
\<close>

fun run_loop ::
  "'f json_codec \<Rightarrow> string \<Rightarrow> callback \<Rightarrow> real \<Rightarrow> tick_env list \<Rightarrow> NetMonitor \<times> 'f filesystem \<Rightarrow>
   (pyerr + unit) \<times> NetMonitor \<times> 'f filesystem" where
  "run_loop codec path on_update last_time [] st = (Inr (), st)"
| "run_loop codec path on_update last_time (env # envs) st =
     (case tick codec path on_update last_time env st of
        (Inl e, st') \<Rightarrow> (Inl e, st')
      | (Inr u, st') \<Rightarrow> run_loop codec path on_update (now env) envs st')"

text \<open>What the world hands to \<^verbatim>\<open>run\<close> before the loop and after it.\<close>

record run_env =
  start_time :: real
  start_stats :: "pyerr + (string \<times> bool) list"
  start_counters :: "pyerr + counters"
  ticks :: "tick_env list"
  exit_writable :: bool

text \<open>
  \<^verbatim>\<open>NetMonitor.run\<close>: the first refresh, the loop, and the last save inside its
  \<^verbatim>\<open>try\<close>. A result \<open>Inl\<close> is an exception that leaves \<^verbatim>\<open>run\<close> and ends the thread.
\<close>

definition run ::
  "'f json_codec \<Rightarrow> string \<Rightarrow> callback \<Rightarrow> run_env \<Rightarrow> NetMonitor \<times> 'f filesystem \<Rightarrow>
   (pyerr + unit) \<times> NetMonitor \<times> 'f filesystem" where
  "run codec path on_update w st =
     (case refresh_ifaces (fst st) (start_stats w) (start_counters w) of
        (Inl e, m) \<Rightarrow> (Inl e, m, snd st)
      | (Inr u, m) \<Rightarrow>
     (case run_loop codec path on_update (start_time w) (ticks w) (m, snd st) of
        (Inl e, st') \<Rightarrow> (Inl e, st')
      | (Inr u, m', fs') \<Rightarrow>
     (case save codec path (fs'\<lparr>writable := exit_writable w\<rparr>) (store m') of
        (Inl e, fs'') \<Rightarrow> (Inr (), m', fs'')
      | (Inr u, fs'') \<Rightarrow> (Inr (), m', fs''))))"

text \<open>
  \<^verbatim>\<open>NetMonitor.__init__\<close>: the fields as the constructor sets them, the store loaded from
  the repository.
\<close>

definition new_monitor :: "'f json_codec \<Rightarrow> string \<Rightarrow> 'f filesystem \<Rightarrow> real \<Rightarrow> Config \<Rightarrow> pyerr + NetMonitor" where
  "new_monitor codec path fs ival cfg =
     (case load codec path fs of Inl e \<Rightarrow> Inl e | Inr s \<Rightarrow>
      Inr \<lparr>interval = ival, last_pernic = Map.empty, included_ifaces = [],
           last_iface_refresh = 0, current_down_bps = 0, current_up_bps = 0,
           ema_down_bps = None, ema_up_bps = None, config = cfg,
           hist_down = [], hist_up = [], avg_down_bps_10s = 0, avg_up_bps_10s = 0,
           store = s\<rparr>)"

text \<open>
  The part of the preferences dialog's \<^verbatim>\<open>on_save\<close> that reaches the monitor: the two
  settings the monitor reads, as the dialog parses them (\<open>smooth\<close> is \<open>None\<close> when the
  text is no number, \<open>sel\<close> is the chosen entry of the interface list), the reset of
  the smoothing state, and the refresh of the interfaces.
\<close>

definition on_save ::
  "NetMonitor \<Rightarrow> real option \<Rightarrow> string \<Rightarrow> pyerr + (string \<times> bool) list \<Rightarrow> pyerr + counters \<Rightarrow> step" where
  "on_save m smooth sel stats_rd counters_rd =
     (let cfg = \<lparr>smoothing_seconds = (case smooth of None \<Rightarrow> 0 | Some x \<Rightarrow> x),
                 nic_name = (if sel = ''(All)'' then None else Some sel)\<rparr>;
          m1 = m\<lparr>config := cfg, ema_down_bps := None, ema_up_bps := None\<rparr>
      in refresh_ifaces m1 stats_rd counters_rd)"

section \<open>Notions used in the statements\<close>

text \<open>
  For the statements about month totals: the day keys of a ledger that start with a
  month key, and the integers a query for one day key returns.
\<close>

definition as_int :: "pyobj \<Rightarrow> int" where
  "as_int v = (case v of PInt n \<Rightarrow> n | _ \<Rightarrow> 0)"

definition month_days :: "UsageStore \<Rightarrow> string \<Rightarrow> string list" where
  "month_days s mkey = (case by_day s of PDict kvs \<Rightarrow> filter (prefix mkey) (map fst kvs) | _ \<Rightarrow> [])"



definition int_totals :: "int \<Rightarrow> int \<Rightarrow> UsageTotals" where
  "int_totals d u = \<lparr>download_bytes = PInt d, upload_bytes = PInt u\<rparr>"

text \<open>The integer \<^verbatim>\<open>vals.get(f, 0)\<close> of a day entry.\<close>

definition fld :: "pyobj \<Rightarrow> string \<Rightarrow> int" where
  "fld v f = (case py_get v f (PInt 0) of Inr x \<Rightarrow> as_int x | Inl e \<Rightarrow> 0)"

text \<open>
  For the statements about deltas: what one tracked interface adds to the sums of a
  tick, \<open>max 0 (current - previous)\<close> for each direction, where the previous reading is
  the stored baseline (the current reading when none is stored) and an interface
  without a reading adds nothing; and the baselines the loop leaves behind.
\<close>

definition iface_delta :: "counters \<Rightarrow> (string \<rightharpoonup> int \<times> int) \<Rightarrow> string \<Rightarrow> int \<times> int" where
  "iface_delta pernic base name =
     (case pernic name of
        None \<Rightarrow> (0, 0)
      | Some c \<Rightarrow>
          (case base name of
             None \<Rightarrow> (max 0 (bytes_recv c - bytes_recv c), max 0 (bytes_sent c - bytes_sent c))
           | Some (prev_recv, prev_sent) \<Rightarrow>
               (max 0 (bytes_recv c - prev_recv), max 0 (bytes_sent c - prev_sent))))"

definition new_baselines :: "counters \<Rightarrow> string list \<Rightarrow> (string \<rightharpoonup> int \<times> int) \<Rightarrow> (string \<rightharpoonup> int \<times> int)" where
  "new_baselines pernic names base =
     (\<lambda>n. if n \<in> set names
          then (case pernic n of None \<Rightarrow> base n | Some c \<Rightarrow> Some (bytes_recv c, bytes_sent c))
          else base n)"






text \<open>
  For the statements about smoothing: the smoothing phase run on a list of raw samples
  \<open>(raw download rate, raw upload rate)\<close>.
\<close>

definition smoothed_steps :: "NetMonitor \<Rightarrow> (real \<times> real) list \<Rightarrow> NetMonitor" where
  "smoothed_steps m raws = fold (\<lambda>(raw_down, raw_up) m. snd (ema_update m raw_down raw_up)) raws m"

section \<open>Example data\<close>

definition january :: UsageStore where
  "january = \<lparr>by_day = PDict
     [(''2024-01-30'', PDict [(''down'', PInt 5), (''up'', PInt 1)]),
      (''2024-01-31'', PDict [(''down'', PInt 7)]),
      (''2024-02-01'', PDict [(''down'', PInt 100), (''up'', PInt 100)])]\<rparr>"


definition mid_march :: datetime where
  "mid_march = \<lparr>year = 2024, month = 3, day = 10\<rparr>"

text \<open>
  A codec for the examples: a file is written as the JSON value its text denotes, so
  decoding gives back what was encoded.
\<close>

definition value_codec :: "pyobj json_codec" where
  "value_codec = \<lparr>json_dump = Inr, json_load = Inr\<rparr>"

definition blank_disk :: "pyobj filesystem" where
  "blank_disk = \<lparr>nodes = Map.empty, writable = True\<rparr>"

definition disk_with :: "pyobj option \<Rightarrow> pyobj filesystem" where
  "disk_with content = \<lparr>nodes = [''data.json'' \<mapsto> File content], writable = True\<rparr>"

text \<open>A disk whose data file holds the JSON document \<^verbatim>\<open>{"by_day": 5}\<close>.\<close>

definition bad_disk :: "pyobj filesystem" where
  "bad_disk = disk_with (Some (PDict [(''by_day'', PInt 5)]))"

definition office_stats :: "(string \<times> bool) list" where
  "office_stats =
     [(''Ethernet'', True), (''Loopback'', True), (''vEthernet (Default)'', True),
      (''Wi-Fi'', True), (''Ethernet 2'', False)]"

definition reading :: "int \<Rightarrow> int \<Rightarrow> snetio" where
  "reading r s = \<lparr>bytes_sent = s, bytes_recv = r\<rparr>"

definition office_counters :: counters where
  "office_counters = map_of
     [(''Ethernet'', reading 1000 500), (''Loopback'', reading 10 10),
      (''vEthernet (Default)'', reading 70 70), (''Wi-Fi'', reading 300 200),
      (''Ethernet 2'', reading 0 0)]"

definition pinned :: "string \<Rightarrow> Config" where
  "pinned n = \<lparr>smoothing_seconds = 0, nic_name = Some n\<rparr>"

definition unpinned :: Config where
  "unpinned = \<lparr>smoothing_seconds = 0, nic_name = None\<rparr>"

text \<open>Readings after a counter reset of one interface, and the baselines before it.\<close>

definition after_reset :: counters where
  "after_reset = map_of [(''Ethernet'', reading 400 900), (''Wi-Fi'', reading 350 200)]"

definition old_baselines :: "string \<rightharpoonup> int \<times> int" where
  "old_baselines = map_of [(''Ethernet'', (1000, 500)), (''Wi-Fi'', (300, 200))]"

text \<open>A monitor as the constructor leaves it, with an empty ledger.\<close>

definition idle_monitor :: NetMonitor where
  "idle_monitor =
     \<lparr>interval = 1 / 2, last_pernic = Map.empty, included_ifaces = [],
      last_iface_refresh = 0, current_down_bps = 0, current_up_bps = 0,
      ema_down_bps = None, ema_up_bps = None, config = unpinned,
      hist_down = [], hist_up = [], avg_down_bps_10s = 0, avg_up_bps_10s = 0,
      store = empty_store\<rparr>"

text \<open>
  A monitor that still holds smoothed rates, a monitor after its first interface
  refresh, and the world of one tick.
\<close>

definition stale_monitor :: NetMonitor where
  "stale_monitor = idle_monitor
     \<lparr>config := \<lparr>smoothing_seconds = 5, nic_name = None\<rparr>,
      ema_down_bps := Some 1000, ema_up_bps := Some 900,
      current_down_bps := 1000, current_up_bps := 900\<rparr>"

definition office_monitor :: NetMonitor where
  "office_monitor = snd (refresh_ifaces idle_monitor (Inr office_stats) (Inr office_counters))"

definition later_counters :: counters where
  "later_counters = map_of [(''Ethernet'', reading 1500 800), (''Wi-Fi'', reading 300 200)]"

definition quiet_tick :: tick_env where
  "quiet_tick = \<lparr>now = 5, stats_read = Inr office_stats, refresh_read = Inr office_counters,
      pernic_read = Inr later_counters, clock_now = mid_march, disk_writable = True\<rparr>"

text \<open>
  Worlds for whole runs: a tick at a given time with the disk writable or not, a tick
  whose counter read raises, and a run that starts at time 19.5.
\<close>

definition tick_at :: "real \<Rightarrow> bool \<Rightarrow> tick_env" where
  "tick_at t w = \<lparr>now = t, stats_read = Inr office_stats, refresh_read = Inr office_counters,
      pernic_read = Inr later_counters, clock_now = mid_march, disk_writable = w\<rparr>"

definition failed_read_at :: "real \<Rightarrow> tick_env" where
  "failed_read_at t = \<lparr>now = t, stats_read = Inr office_stats, refresh_read = Inr office_counters,
      pernic_read = Inl OSError, clock_now = mid_march, disk_writable = True\<rparr>"

definition world :: "tick_env list \<Rightarrow> bool \<Rightarrow> run_env" where
  "world envs w = \<lparr>start_time = 39 / 2, start_stats = Inr office_stats,
      start_counters = Inr office_counters, ticks = envs, exit_writable = w\<rparr>"

section \<open>Proved properties\<close>

subsection \<open>The examples are what the program builds\<close>

lemma new_monitor_on_blank_disk:
  "new_monitor value_codec ''data.json'' blank_disk (1 / 2) unpinned = Inr idle_monitor"
  by (simp add: new_monitor_def load_def path_exists_def blank_disk_def idle_monitor_def)

lemma office_monitor_tracks:
  "included_ifaces office_monitor = [''Ethernet'', ''Wi-Fi'']
   \<and> last_pernic office_monitor ''Ethernet'' = Some (1000, 500)
   \<and> last_pernic office_monitor ''Wi-Fi'' = Some (300, 200)
   \<and> last_pernic office_monitor ''Loopback'' = None"
  by (simp add: office_monitor_def refresh_ifaces_def idle_monitor_def office_stats_def
        office_counters_def reading_def startswith_any_def exclude_prefixes_def pin_ifaces_def
        unpinned_def Let_def)

subsection \<open>Month totals\<close>







subsection \<open>Reads and the ledger\<close>

lemma month_loop_no_match:
  assumes "filter (prefix mkey) (map fst kvs) = []"
  shows "month_loop mkey kvs a b = Inr (a, b)"
  using assms
proof (induction kvs)
  case Nil
  then show ?case by simp
next
  case (Cons p kvs)
  obtain k v where p: "p = (k, v)" by (cases p)
  from Cons.prems have "\<not> prefix mkey k" and "filter (prefix mkey) (map fst kvs) = []"
    by (simp_all add: p split: if_splits)
  with Cons.IH show ?case by (simp add: p)
qed

text \<open>
  C10. \<^verbatim>\<open>get_today\<close> and \<^verbatim>\<open>get_month\<close> hand the store back as they found it, whatever they
  return or raise. For a day key that is not in the ledger \<^verbatim>\<open>get_today\<close> returns zero
  totals and \<^verbatim>\<open>clear_today\<close> leaves the store as it is, with no new entry; for a month
  without a day key \<^verbatim>\<open>get_month\<close> returns zero totals.
\<close>

theorem reads_leave_ledger_unchanged:
  "snd (get_today s clock dt) = s
   \<and> snd (get_month s clock dt) = s
   \<and> (py_contains (by_day s) (today_key clock dt) = Inr False \<longrightarrow>
        get_today s clock dt = (Inr (int_totals 0 0), s)
        \<and> clear_today s clock dt = (Inr (), s))
   \<and> (by_day s = PDict kvs \<and> month_days s (month_key clock dt) = [] \<longrightarrow>
        get_month s clock dt = (Inr (int_totals 0 0), s))"
proof -
  have a: "snd (get_today s clock dt) = s" by (simp add: get_today_def)
  have b: "snd (get_month s clock dt) = s" by (simp add: get_month_def)
  have c: "get_today s clock dt = (Inr (int_totals 0 0), s) \<and> clear_today s clock dt = (Inr (), s)"
    if "py_contains (by_day s) (today_key clock dt) = Inr False"
    using that by (simp add: get_today_def totals_at_def clear_today_def int_totals_def)
  have d: "get_month s clock dt = (Inr (int_totals 0 0), s)"
    if "by_day s = PDict kvs" and "month_days s (month_key clock dt) = []"
  proof -
    from that have "filter (prefix (month_key clock dt)) (map fst kvs) = []"
      by (simp add: month_days_def)
    then have "month_loop (month_key clock dt) kvs 0 0 = Inr (0, 0)"
      by (rule month_loop_no_match)
    with that(1) show ?thesis
      by (simp add: get_month_def month_totals_def int_totals_def)
  qed
  from a b c d show ?thesis by blast
qed

theorem reads_leave_ledger_unchanged_witness:
  "py_contains (by_day january) (today_key mid_march None) = Inr False
   \<and> month_days january (month_key mid_march None) = []
   \<and> get_today january mid_march None = (Inr (int_totals 0 0), january)
   \<and> get_month january mid_march None = (Inr (int_totals 0 0), january)
   \<and> clear_today january mid_march None = (Inr (), january)"
proof -
  have tk: "today_key mid_march None = ''2024-03-10''"
    by (simp add: today_key_def mid_march_def pad4_def pad2_def digit_def)
  have mk: "month_key mid_march None = ''2024-03''"
    by (simp add: month_key_def mid_march_def pad4_def pad2_def digit_def)
  have absent: "py_contains (by_day january) ''2024-03-10'' = Inr False"
    by (simp add: january_def)
  have none: "month_days january ''2024-03'' = []"
    by (simp add: month_days_def january_def)
  have bd: "by_day january = PDict
     [(''2024-01-30'', PDict [(''down'', PInt 5), (''up'', PInt 1)]),
      (''2024-01-31'', PDict [(''down'', PInt 7)]),
      (''2024-02-01'', PDict [(''down'', PInt 100), (''up'', PInt 100)])]"
    by (simp add: january_def)
  show ?thesis
    using reads_leave_ledger_unchanged[of january mid_march None, OF] absent none bd
    by (simp add: tk mk)
qed

subsection \<open>Repository\<close>

lemma save_result:
  assumes "save codec path fs s = (Inr (), fs')"
  shows "\<exists>text. json_dump codec (to_json s) = Inr text \<and> nodes fs' path = Some (File (Some text))"
  using assms
  by (auto simp: save_def Let_def open_write_def os_replace_def
           split: if_splits sum.splits option.splits node.splits)

text \<open>
  C6. When \<^verbatim>\<open>save\<close> returns, and the JSON library reads back the value it wrote,
  \<^verbatim>\<open>load\<close> on the same path returns the store that was saved.
\<close>

theorem save_then_load:
  assumes "save codec path fs s = (Inr (), fs')"
    and "\<forall>text. json_dump codec (to_json s) = Inr text \<longrightarrow> json_load codec text = Inr (to_json s)"
  shows "load codec path fs' = Inr s"
proof -
  from save_result[OF assms(1)] obtain doc
    where enc: "json_dump codec (to_json s) = Inr doc"
      and node: "nodes fs' path = Some (File (Some doc))"
    by blast
  from assms(2) enc have reread: "json_load codec doc = Inr (to_json s)" by blast
  have "from_json (to_json s) = Inr s"
    by (simp add: from_json_def to_json_def)
  with node reread show ?thesis
    by (simp add: load_def path_exists_def load_try_def open_read_def)
qed

theorem save_then_load_witness:
  "fst (save value_codec ''data.json'' blank_disk january) = Inr ()
   \<and> load value_codec ''data.json'' (snd (save value_codec ''data.json'' blank_disk january)) = Inr january"
proof -
  have ok: "fst (save value_codec ''data.json'' blank_disk january) = Inr ()"
    by (simp add: save_def value_codec_def blank_disk_def open_write_def os_replace_def Let_def)
  then have eq: "save value_codec ''data.json'' blank_disk january =
      (Inr (), snd (save value_codec ''data.json'' blank_disk january))"
    by (simp add: prod_eq_iff)
  have rt: "\<forall>text. json_dump value_codec (to_json january) = Inr text \<longrightarrow>
       json_load value_codec text = Inr (to_json january)"
    by (simp add: value_codec_def)
  from save_then_load[OF eq rt] ok show ?thesis by simp
qed

text \<open>
  What \<^verbatim>\<open>load\<close> catches: it never raises, and it returns an empty ledger when the file is
  missing, cannot be opened, is empty, is not JSON, or holds JSON that is not an object.
\<close>

lemma load_guards:
  "(\<exists>s. load codec path fs = Inr s)
   \<and> (\<not> path_exists fs path \<longrightarrow> load codec path fs = Inr empty_store)
   \<and> (open_read fs path = Inl e \<longrightarrow> load codec path fs = Inr empty_store)
   \<and> (open_read fs path = Inr None \<longrightarrow> load codec path fs = Inr empty_store)
   \<and> (open_read fs path = Inr (Some text) \<and> json_load codec text = Inl e \<longrightarrow>
        load codec path fs = Inr empty_store)
   \<and> (open_read fs path = Inr (Some text) \<and> json_load codec text = Inr data \<and> (\<forall>kvs. data \<noteq> PDict kvs) \<longrightarrow>
        load codec path fs = Inr empty_store)"
proof -
  have a: "\<exists>s. load codec path fs = Inr s"
    by (simp add: load_def split: sum.splits)
  have b: "\<not> path_exists fs path \<longrightarrow> load codec path fs = Inr empty_store"
    by (simp add: load_def)
  have c: "open_read fs path = Inl e \<longrightarrow> load codec path fs = Inr empty_store"
    by (simp add: load_def load_try_def)
  have d: "open_read fs path = Inr None \<longrightarrow> load codec path fs = Inr empty_store"
    by (simp add: load_def load_try_def)
  have e: "open_read fs path = Inr (Some text) \<and> json_load codec text = Inl e \<longrightarrow>
        load codec path fs = Inr empty_store"
    by (simp add: load_def load_try_def)
  have f: "open_read fs path = Inr (Some text) \<and> json_load codec text = Inr data \<and> (\<forall>kvs. data \<noteq> PDict kvs) \<longrightarrow>
        load codec path fs = Inr empty_store"
    by (cases data) (simp_all add: load_def load_try_def from_json_def)
  from a b c d e f show ?thesis by blast
qed

lemma load_guards_examples:
  "load value_codec ''data.json'' blank_disk = Inr empty_store
   \<and> load value_codec ''data.json'' (disk_with None) = Inr empty_store
   \<and> load value_codec ''data.json'' (disk_with (Some (PList []))) = Inr empty_store"
  by (simp add: load_def load_try_def path_exists_def open_read_def disk_with_def blank_disk_def
        value_codec_def from_json_def)

subsection \<open>Interface selection\<close>

lemma filter_ifaces_member:
  "name \<in> set (filter_ifaces stats all_counters) \<longleftrightarrow>
     (name, True) \<in> set stats \<and> \<not> startswith_any name exclude_prefixes \<and> all_counters name \<noteq> None"
  by (induction stats all_counters rule: filter_ifaces.induct) auto

lemma office_filtered: "filter_ifaces office_stats office_counters = [''Ethernet'', ''Wi-Fi'']"
  by (simp add: office_stats_def office_counters_def startswith_any_def exclude_prefixes_def)

text \<open>
  C8, as stated, fails: an interface that reports up and has no excluded prefix is left
  out when the counter table has no entry for it.
\<close>

theorem up_interface_without_counters_is_left_out:
  "(''Ethernet'', True) \<in> set [(''Ethernet'', True)]
   \<and> \<not> startswith_any ''Ethernet'' exclude_prefixes
   \<and> ''Ethernet'' \<notin> set (pin_ifaces unpinned (filter_ifaces [(''Ethernet'', True)] Map.empty))"
  by (simp add: startswith_any_def exclude_prefixes_def pin_ifaces_def unpinned_def)

text \<open>
  C8, amended. An interface is in the filtered set if and only if it reports up, its
  name starts with none of the excluded prefixes, and the counter table has an entry
  for it. A pinned name that is in the filtered set narrows the result to that one
  interface; a pinned name that is not leaves the whole filtered set, as does no pin.
  \<^verbatim>\<open>_refresh_ifaces\<close> stores that result.
\<close>

theorem interface_selection:
  "(name \<in> set (filter_ifaces stats all_counters) \<longleftrightarrow>
      (name, True) \<in> set stats \<and> \<not> startswith_any name exclude_prefixes \<and> all_counters name \<noteq> None)
   \<and> (nic_name cfg = Some n \<and> n \<noteq> [] \<and> n \<in> set (filter_ifaces stats all_counters) \<longrightarrow>
        pin_ifaces cfg (filter_ifaces stats all_counters) = [n])
   \<and> (nic_name cfg = Some n \<and> n \<notin> set (filter_ifaces stats all_counters) \<longrightarrow>
        pin_ifaces cfg (filter_ifaces stats all_counters) = filter_ifaces stats all_counters)
   \<and> (nic_name cfg = None \<longrightarrow>
        pin_ifaces cfg (filter_ifaces stats all_counters) = filter_ifaces stats all_counters)
   \<and> included_ifaces (snd (refresh_ifaces m (Inr stats) (Inr all_counters))) =
        pin_ifaces (config m) (filter_ifaces stats all_counters)"
  by (auto simp: filter_ifaces_member pin_ifaces_def refresh_ifaces_def Let_def)

theorem interface_selection_witness:
  "filter_ifaces office_stats office_counters = [''Ethernet'', ''Wi-Fi'']
   \<and> pin_ifaces (pinned ''Wi-Fi'') (filter_ifaces office_stats office_counters) = [''Wi-Fi'']
   \<and> pin_ifaces (pinned ''Tether'') (filter_ifaces office_stats office_counters) = [''Ethernet'', ''Wi-Fi'']
   \<and> pin_ifaces unpinned (filter_ifaces office_stats office_counters) = [''Ethernet'', ''Wi-Fi'']"
proof -
  have a: "pin_ifaces (pinned ''Wi-Fi'') (filter_ifaces office_stats office_counters) = [''Wi-Fi'']"
    using interface_selection[of _ office_stats office_counters "pinned ''Wi-Fi''" "''Wi-Fi''"]
    by (simp add: office_filtered pinned_def)
  have b: "pin_ifaces (pinned ''Tether'') (filter_ifaces office_stats office_counters) = [''Ethernet'', ''Wi-Fi'']"
    using interface_selection[of _ office_stats office_counters "pinned ''Tether''" "''Tether''"]
    by (simp add: office_filtered pinned_def)
  have c: "pin_ifaces unpinned (filter_ifaces office_stats office_counters) = [''Ethernet'', ''Wi-Fi'']"
    using interface_selection[of _ office_stats office_counters unpinned]
    by (simp add: office_filtered unpinned_def)
  from a b c office_filtered show ?thesis by simp
qed

subsection \<open>Counter deltas\<close>

lemma iface_delta_nonneg: "0 \<le> fst (iface_delta pernic base n) \<and> 0 \<le> snd (iface_delta pernic base n)"
  by (simp add: iface_delta_def split: option.splits prod.splits)

lemma iface_delta_other:
  "n \<noteq> name \<Longrightarrow> iface_delta pernic (base(name \<mapsto> v)) n = iface_delta pernic base n"
  by (simp add: iface_delta_def split: option.splits)

lemma delta_loop_sums:
  assumes "distinct names"
  shows "delta_loop pernic names base dd ud =
           (new_baselines pernic names base,
            dd + (\<Sum>n\<leftarrow>names. fst (iface_delta pernic base n)),
            ud + (\<Sum>n\<leftarrow>names. snd (iface_delta pernic base n)))"
  using assms
proof (induction names arbitrary: base dd ud)
  case Nil
  then show ?case by (simp add: new_baselines_def)
next
  case (Cons name rest)
  from Cons.prems have fresh: "name \<notin> set rest" and dist: "distinct rest" by simp_all
  show ?case
  proof (cases "pernic name")
    case None
    have "new_baselines pernic (name # rest) base = new_baselines pernic rest base"
      by (auto simp: new_baselines_def None fun_eq_iff)
    with None Cons.IH[OF dist] show ?thesis
      by (simp add: iface_delta_def)
  next
    case (Some c)
    let ?b = "base(name \<mapsto> (bytes_recv c, bytes_sent c))"
    have same: "map (\<lambda>n. f (iface_delta pernic ?b n)) rest = map (\<lambda>n. f (iface_delta pernic base n)) rest"
      for f :: "int \<times> int \<Rightarrow> int"
    proof (rule map_cong)
      fix n assume "n \<in> set rest"
      with fresh have "n \<noteq> name" by blast
      then show "f (iface_delta pernic ?b n) = f (iface_delta pernic base n)"
        by (simp add: iface_delta_other)
    qed simp
    have nb: "new_baselines pernic rest ?b = new_baselines pernic (name # rest) base"
      using fresh by (auto simp: new_baselines_def Some fun_eq_iff split: option.splits)
    have head: "iface_delta pernic base name =
        (max 0 (bytes_recv c - fst (case base name of None \<Rightarrow> (bytes_recv c, bytes_sent c) | Some p \<Rightarrow> p)),
         max 0 (bytes_sent c - snd (case base name of None \<Rightarrow> (bytes_recv c, bytes_sent c) | Some p \<Rightarrow> p)))"
      by (simp add: iface_delta_def Some split: option.splits prod.splits)
    let ?prev = "case base name of None \<Rightarrow> (bytes_recv c, bytes_sent c) | Some p \<Rightarrow> p"
    let ?dn = "max 0 (bytes_recv c - fst ?prev)"
    let ?up = "max 0 (bytes_sent c - snd ?prev)"
    have "delta_loop pernic (name # rest) base dd ud = delta_loop pernic rest ?b (dd + ?dn) (ud + ?up)"
      by (simp add: Some Let_def)
    also have "\<dots> = (new_baselines pernic rest ?b,
        dd + ?dn + (\<Sum>n\<leftarrow>rest. fst (iface_delta pernic ?b n)),
        ud + ?up + (\<Sum>n\<leftarrow>rest. snd (iface_delta pernic ?b n)))"
      by (rule Cons.IH[OF dist])
    also have "\<dots> = (new_baselines pernic (name # rest) base,
        dd + (\<Sum>n\<leftarrow>name # rest. fst (iface_delta pernic base n)),
        ud + (\<Sum>n\<leftarrow>name # rest. snd (iface_delta pernic base n)))"
      unfolding same nb by (simp add: head)
    finally show ?thesis .
  qed
qed

text \<open>
  C1. The loop over the tracked interfaces (a set in the source, so no name twice)
  returns as \<^verbatim>\<open>down_delta\<close> and \<^verbatim>\<open>up_delta\<close> the sums of the per-interface deltas, each
  of which is \<open>max 0 (current - previous)\<close> and so never negative, whatever the readings
  and the baselines are; the readings become the baselines of the next tick.
\<close>

theorem deltas_clamped_and_summed:
  assumes "distinct names"
  shows "delta_loop pernic names base 0 0 =
           (new_baselines pernic names base,
            (\<Sum>n\<leftarrow>names. fst (iface_delta pernic base n)),
            (\<Sum>n\<leftarrow>names. snd (iface_delta pernic base n)))
         \<and> (\<forall>n. 0 \<le> fst (iface_delta pernic base n) \<and> 0 \<le> snd (iface_delta pernic base n))
         \<and> (\<forall>n c pr ps. pernic n = Some c \<and> base n = Some (pr, ps) \<longrightarrow>
               iface_delta pernic base n = (max 0 (bytes_recv c - pr), max 0 (bytes_sent c - ps)))
         \<and> 0 \<le> fst (snd (delta_loop pernic names base 0 0))
         \<and> 0 \<le> snd (snd (delta_loop pernic names base 0 0))"
proof -
  have run: "delta_loop pernic names base 0 0 =
           (new_baselines pernic names base,
            (\<Sum>n\<leftarrow>names. fst (iface_delta pernic base n)),
            (\<Sum>n\<leftarrow>names. snd (iface_delta pernic base n)))"
    using delta_loop_sums[OF assms, of pernic base 0 0] by simp
  have each: "\<forall>n. 0 \<le> fst (iface_delta pernic base n) \<and> 0 \<le> snd (iface_delta pernic base n)"
    by (simp add: iface_delta_nonneg)
  have form: "\<forall>n c pr ps. pernic n = Some c \<and> base n = Some (pr, ps) \<longrightarrow>
               iface_delta pernic base n = (max 0 (bytes_recv c - pr), max 0 (bytes_sent c - ps))"
    by (simp add: iface_delta_def)
  have d: "0 \<le> (\<Sum>n\<leftarrow>names. fst (iface_delta pernic base n))"
    by (rule sum_list_nonneg) (auto simp: iface_delta_nonneg)
  have u: "0 \<le> (\<Sum>n\<leftarrow>names. snd (iface_delta pernic base n))"
    by (rule sum_list_nonneg) (auto simp: iface_delta_nonneg)
  from run each form d u show ?thesis by simp
qed

theorem deltas_clamped_and_summed_witness:
  "distinct [''Ethernet'', ''Wi-Fi'', ''Tether'']
   \<and> iface_delta after_reset old_baselines ''Ethernet'' = (0, 400)
   \<and> iface_delta after_reset old_baselines ''Wi-Fi'' = (50, 0)
   \<and> iface_delta after_reset old_baselines ''Tether'' = (0, 0)
   \<and> snd (delta_loop after_reset [''Ethernet'', ''Wi-Fi'', ''Tether''] old_baselines 0 0) = (50, 400)"
proof -
  have dist: "distinct [''Ethernet'', ''Wi-Fi'', ''Tether'']" by simp
  have e: "iface_delta after_reset old_baselines ''Ethernet'' = (0, 400)"
    and w: "iface_delta after_reset old_baselines ''Wi-Fi'' = (50, 0)"
    and t: "iface_delta after_reset old_baselines ''Tether'' = (0, 0)"
    by (simp_all add: iface_delta_def after_reset_def old_baselines_def reading_def)
  from deltas_clamped_and_summed[OF dist, of after_reset old_baselines] dist e w t
  show ?thesis by simp
qed

subsection \<open>Rolling window\<close>










subsection \<open>Smoothing\<close>

lemma ema_update_off:
  "smoothing_seconds (config m) \<le> 0 \<Longrightarrow>
     ema_update m rd ru = (Inr (), m\<lparr>current_down_bps := rd, current_up_bps := ru\<rparr>)"
  by (simp add: ema_update_def max_def)

lemma on_save_resets:
  "ema_down_bps (snd (on_save m smooth sel sr cr)) = None
   \<and> ema_up_bps (snd (on_save m smooth sel sr cr)) = None
   \<and> smoothing_seconds (config (snd (on_save m smooth sel sr cr))) = (case smooth of None \<Rightarrow> 0 | Some x \<Rightarrow> x)"
  by (simp add: on_save_def refresh_ifaces_def Let_def split: sum.splits)

lemma smoothed_steps_off:
  assumes "smoothing_seconds (config m) \<le> 0"
  shows "ema_down_bps (smoothed_steps m raws) = ema_down_bps m
       \<and> ema_up_bps (smoothed_steps m raws) = ema_up_bps m
       \<and> config (smoothed_steps m raws) = config m"
  using assms
proof (induction raws arbitrary: m)
  case Nil
  then show ?case by (simp add: smoothed_steps_def)
next
  case (Cons r raws)
  obtain rd ru where r: "r = (rd, ru)" by (cases r)
  let ?m = "m\<lparr>current_down_bps := rd, current_up_bps := ru\<rparr>"
  have step: "smoothed_steps m (r # raws) = smoothed_steps ?m raws"
    by (simp add: smoothed_steps_def r ema_update_off[OF Cons.prems])
  from Cons.prems have "smoothing_seconds (config ?m) \<le> 0" by simp
  from Cons.IH[OF this] show ?case by (simp add: step)
qed

lemma ema_update_seed:
  assumes "0 < smoothing_seconds (config m)" and "ema_down_bps m = None"
  shows "ema_update m rd ru =
           (Inr (), m\<lparr>ema_down_bps := Some rd, ema_up_bps := Some ru,
                      current_down_bps := rd, current_up_bps := ru\<rparr>)"
  using assms by (simp add: ema_update_def max_def Let_def)

lemma evict_keeps_new:
  "\<not> t < tcut \<Longrightarrow> evict tcut (hist @ [(t, v)]) \<noteq> [] \<and> last (evict tcut (hist @ [(t, v)])) = (t, v)"
  by (induction hist) (auto split: if_splits)

lemma refresh_keeps_config: "config (snd (refresh_ifaces m sr cr)) = config m"
  by (simp add: refresh_ifaces_def Let_def split: sum.splits)

lemma tick_ok_shape:
  assumes "tick codec path on_update last_time env (m, fs) = (Inr (), m', fs')"
  shows "\<exists>m2 m3 s5 raw_down raw_up.
           config m2 = config m
         \<and> ema_update m2 raw_down raw_up = (Inr (), m3)
         \<and> m' = (rolling_update m3 (now env) raw_down raw_up)\<lparr>store := s5\<rparr>"
proof -
  let ?refresh = "if now env - last_iface_refresh m > 10
            then (case refresh_ifaces m (stats_read env) (refresh_read env) of
                    (Inl e, m) \<Rightarrow> (Inl e, m)
                  | (Inr u, m) \<Rightarrow> (Inr (), m\<lparr>last_iface_refresh := now env\<rparr>))
            else (Inr (), m)"
  obtain r1 m1 where r: "?refresh = (r1, m1)" by (cases ?refresh)
  have cfg1: "config m1 = config m"
  proof (cases "now env - last_iface_refresh m > 10")
    case True
    obtain q mq where q: "refresh_ifaces m (stats_read env) (refresh_read env) = (q, mq)"
      by (cases "refresh_ifaces m (stats_read env) (refresh_read env)")
    have "config mq = config m" using refresh_keeps_config[of m "stats_read env" "refresh_read env"] q by simp
    with r True q show ?thesis by (cases q) auto
  next
    case False
    with r show ?thesis by simp
  qed
  from assms r obtain u1 where r1: "r1 = Inr u1"
    by (cases r1) (simp_all add: tick_def Let_def)
  from assms r r1 obtain pernic where p: "pernic_read env = Inr pernic"
    by (cases "pernic_read env") (simp_all add: tick_def Let_def)
  obtain base dd ud where dl: "delta_loop pernic (included_ifaces m1) (last_pernic m1) 0 0 = (base, dd, ud)"
    by (cases "delta_loop pernic (included_ifaces m1) (last_pernic m1) 0 0")
  let ?elapsed = "max (1 / 1000000) (now env - last_time)"
  let ?rd = "max 0 (real_of_int dd / ?elapsed)"
  let ?ru = "max 0 (real_of_int ud / ?elapsed)"
  let ?m2 = "m1\<lparr>last_pernic := base\<rparr>"
  obtain r3 m3 where e: "ema_update ?m2 ?rd ?ru = (r3, m3)"
    by (cases "ema_update ?m2 ?rd ?ru")
  from assms r r1 p dl e obtain u3 where r3: "r3 = Inr u3"
    by (cases r3) (simp_all add: tick_def Let_def)
  let ?m4 = "rolling_update m3 (now env) ?rd ?ru"
  obtain r5 s5 where a: "add_usage (store ?m4) (clock_now env) dd ud = (r5, s5)"
    by (cases "add_usage (store ?m4) (clock_now env) dd ud")
  from assms r r1 p dl e r3 a obtain u5 where r5: "r5 = Inr u5"
    by (cases r5) (simp_all add: tick_def Let_def)
  from assms r r1 p dl e r3 a r5 have "m' = ?m4\<lparr>store := s5\<rparr>"
    by (simp add: tick_def Let_def split: prod.splits sum.splits)
  moreover have "config ?m2 = config m" using cfg1 by simp
  moreover have "ema_update ?m2 ?rd ?ru = (Inr (), m3)" using e r3 by simp
  ultimately show ?thesis by blast
qed

lemma tick_current_off:
  assumes "tick codec path on_update last_time env (m, fs) = (Inr (), m', fs')"
    and "smoothing_seconds (config m) \<le> 0"
  shows "hist_down m' \<noteq> [] \<and> last (hist_down m') = (now env, current_down_bps m')
       \<and> hist_up m' \<noteq> [] \<and> last (hist_up m') = (now env, current_up_bps m')"
proof -
  from tick_ok_shape[OF assms(1)] obtain m2 m3 s5 rd ru where
    cfg: "config m2 = config m" and e: "ema_update m2 rd ru = (Inr (), m3)"
    and m': "m' = (rolling_update m3 (now env) rd ru)\<lparr>store := s5\<rparr>"
    by blast
  from assms(2) cfg have "smoothing_seconds (config m2) \<le> 0" by simp
  from ema_update_off[OF this, of rd ru] e
  have m3: "m3 = m2\<lparr>current_down_bps := rd, current_up_bps := ru\<rparr>" by simp
  have keep: "\<not> now env < now env - 10" by simp
  note k = evict_keeps_new[OF keep]
  show ?thesis
    by (simp add: m' m3 rolling_update_def Let_def k)
qed

lemma quiet_tick_ok:
  "fst (tick value_codec ''data.json'' None (9 / 2) quiet_tick (office_monitor, blank_disk)) = Inr ()"
  by (simp add: tick_def quiet_tick_def office_monitor_def idle_monitor_def refresh_ifaces_def
        office_stats_def office_counters_def later_counters_def reading_def startswith_any_def
        exclude_prefixes_def pin_ifaces_def unpinned_def Let_def ema_update_def rolling_update_def
        add_usage_def today_key_def mid_march_def pad4_def pad2_def digit_def empty_store_def
        zero_day_def iadd_field_def py_int_def notify_def)

text \<open>
  C2. With \<^verbatim>\<open>smoothing_seconds\<close> at 0 (or below) the smoothing phase exposes the raw rates,
  and a tick that completes exposes the raw rates it put into the rolling window at its
  own time. The preferences dialog, the one place that changes the setting, clears the
  stored smoothing state on every save. So after smoothing is switched off the state is
  empty, it stays empty for as many ticks as follow, and when smoothing is switched on
  again the first tick takes its raw rates as the new state and exposes them.
\<close>

theorem smoothing_off_bypasses_and_reseeds:
  "(smoothing_seconds (config m) \<le> 0 \<longrightarrow>
      ema_update m raw_down raw_up = (Inr (), m\<lparr>current_down_bps := raw_down, current_up_bps := raw_up\<rparr>))
   \<and> (smoothing_seconds (config m) \<le> 0
        \<and> tick codec path on_update last_time env (m, fs) = (Inr (), m', fs') \<longrightarrow>
      hist_down m' \<noteq> [] \<and> last (hist_down m') = (now env, current_down_bps m')
      \<and> hist_up m' \<noteq> [] \<and> last (hist_up m') = (now env, current_up_bps m'))
   \<and> ema_down_bps (snd (on_save m smooth sel sr cr)) = None
   \<and> ema_up_bps (snd (on_save m smooth sel sr cr)) = None
   \<and> ((case off of None \<Rightarrow> 0 | Some x \<Rightarrow> x) \<le> 0 \<and> 0 < s \<longrightarrow>
        ema_down_bps (smoothed_steps (snd (on_save m off sel sr cr)) raws) = None
      \<and> ema_up_bps (smoothed_steps (snd (on_save m off sel sr cr)) raws) = None
      \<and> (let m3 = snd (on_save (smoothed_steps (snd (on_save m off sel sr cr)) raws) (Some s) sel' sr' cr')
         in ema_update m3 raw_down raw_up =
              (Inr (), m3\<lparr>ema_down_bps := Some raw_down, ema_up_bps := Some raw_up,
                          current_down_bps := raw_down, current_up_bps := raw_up\<rparr>)))"
proof -
  have a: "smoothing_seconds (config m) \<le> 0 \<longrightarrow>
      ema_update m raw_down raw_up = (Inr (), m\<lparr>current_down_bps := raw_down, current_up_bps := raw_up\<rparr>)"
    by (simp add: ema_update_off)
  have b: "smoothing_seconds (config m) \<le> 0
        \<and> tick codec path on_update last_time env (m, fs) = (Inr (), m', fs') \<longrightarrow>
      hist_down m' \<noteq> [] \<and> last (hist_down m') = (now env, current_down_bps m')
      \<and> hist_up m' \<noteq> [] \<and> last (hist_up m') = (now env, current_up_bps m')"
    using tick_current_off by blast
  have c: "ema_down_bps (snd (on_save m smooth sel sr cr)) = None
         \<and> ema_up_bps (snd (on_save m smooth sel sr cr)) = None"
    using on_save_resets[of m smooth sel sr cr] by simp
  have d: "ema_down_bps (smoothed_steps (snd (on_save m off sel sr cr)) raws) = None
      \<and> ema_up_bps (smoothed_steps (snd (on_save m off sel sr cr)) raws) = None
      \<and> (let m3 = snd (on_save (smoothed_steps (snd (on_save m off sel sr cr)) raws) (Some s) sel' sr' cr')
         in ema_update m3 raw_down raw_up =
              (Inr (), m3\<lparr>ema_down_bps := Some raw_down, ema_up_bps := Some raw_up,
                          current_down_bps := raw_down, current_up_bps := raw_up\<rparr>))"
    if off: "(case off of None \<Rightarrow> 0 | Some x \<Rightarrow> x) \<le> 0" and s: "0 < s"
  proof -
    let ?m1 = "snd (on_save m off sel sr cr)"
    let ?m2 = "smoothed_steps ?m1 raws"
    let ?m3 = "snd (on_save ?m2 (Some s) sel' sr' cr')"
    from on_save_resets[of m off sel sr cr] off
    have m1: "ema_down_bps ?m1 = None" "ema_up_bps ?m1 = None" "smoothing_seconds (config ?m1) \<le> 0"
      by simp_all
    from smoothed_steps_off[OF m1(3), of raws] m1(1,2)
    have m2: "ema_down_bps ?m2 = None" "ema_up_bps ?m2 = None" by simp_all
    from on_save_resets[of ?m2 "Some s" sel' sr' cr'] s
    have m3: "ema_down_bps ?m3 = None" "0 < smoothing_seconds (config ?m3)" by simp_all
    from ema_update_seed[OF m3(2) m3(1), of raw_down raw_up] m2
    show ?thesis by (simp add: Let_def)
  qed
  from a b c d show ?thesis by blast
qed

theorem smoothing_off_bypasses_and_reseeds_witness:
  "smoothing_seconds (config office_monitor) \<le> 0
   \<and> fst (tick value_codec ''data.json'' None (9 / 2) quiet_tick (office_monitor, blank_disk)) = Inr ()
   \<and> current_down_bps (fst (snd (tick value_codec ''data.json'' None (9 / 2) quiet_tick (office_monitor, blank_disk)))) = 1000
   \<and> last (hist_down (fst (snd (tick value_codec ''data.json'' None (9 / 2) quiet_tick (office_monitor, blank_disk))))) = (5, 1000)
   \<and> ema_down_bps stale_monitor = Some 1000
   \<and> ema_down_bps (snd (on_save stale_monitor (Some 0) ''(All)'' (Inr office_stats) (Inr office_counters))) = None
   \<and> current_down_bps (snd (ema_update
        (snd (on_save
           (smoothed_steps (snd (on_save stale_monitor (Some 0) ''(All)'' (Inr office_stats) (Inr office_counters)))
              [(10, 20), (30, 40)])
           (Some 5) ''(All)'' (Inr office_stats) (Inr office_counters)))
        70 80)) = 70"
proof -
  let ?t = "tick value_codec ''data.json'' None (9 / 2) quiet_tick (office_monitor, blank_disk)"
  have cfg: "smoothing_seconds (config office_monitor) \<le> 0"
    by (simp add: office_monitor_def refresh_keeps_config idle_monitor_def unpinned_def)
  have ok: "fst ?t = Inr ()" by (rule quiet_tick_ok)
  then have eq: "?t = (Inr (), fst (snd ?t), snd (snd ?t))" by (simp add: prod_eq_iff)
  have raw: "current_down_bps (fst (snd ?t)) = 1000"
    by (simp add: tick_def quiet_tick_def office_monitor_def idle_monitor_def refresh_ifaces_def
        office_stats_def office_counters_def later_counters_def reading_def startswith_any_def
        exclude_prefixes_def pin_ifaces_def unpinned_def Let_def ema_update_def rolling_update_def
        add_usage_def today_key_def mid_march_def pad4_def pad2_def digit_def empty_store_def
        zero_day_def iadd_field_def py_int_def notify_def)
  have nw: "now quiet_tick = 5" by (simp add: quiet_tick_def)
  have stale: "ema_down_bps stale_monitor = Some 1000" by (simp add: stale_monitor_def)
  note T = smoothing_off_bypasses_and_reseeds[of office_monitor _ _ value_codec "''data.json''" None "9 / 2"
      quiet_tick blank_disk "fst (snd ?t)" "snd (snd ?t)"]
  from T cfg eq have "last (hist_down (fst (snd ?t))) = (now quiet_tick, current_down_bps (fst (snd ?t)))"
    by blast
  then have lst: "last (hist_down (fst (snd ?t))) = (5, 1000)" by (simp add: nw raw)
  note S = smoothing_off_bypasses_and_reseeds[of stale_monitor 70 80 value_codec "''data.json''" None 0
      quiet_tick blank_disk stale_monitor blank_disk "Some 0" "''(All)''" "Inr office_stats" "Inr office_counters"
      "Some 0" 5 "[(10, 20), (30, 40)]" "''(All)''" "Inr office_stats" "Inr office_counters"]
  from S have reset: "ema_down_bps (snd (on_save stale_monitor (Some 0) ''(All)'' (Inr office_stats) (Inr office_counters))) = None"
    by blast
  from S have seed: "current_down_bps (snd (ema_update
        (snd (on_save
           (smoothed_steps (snd (on_save stale_monitor (Some 0) ''(All)'' (Inr office_stats) (Inr office_counters)))
              [(10, 20), (30, 40)])
           (Some 5) ''(All)'' (Inr office_stats) (Inr office_counters)))
        70 80)) = 70"
    by (simp add: Let_def)
  from cfg ok raw lst stale reset seed show ?thesis by simp
qed

subsection \<open>The loop and failures\<close>

lemmas eval_defs = run_def tick_def world_def tick_at_def failed_read_at_def idle_monitor_def refresh_ifaces_def
        office_stats_def office_counters_def later_counters_def reading_def startswith_any_def
        exclude_prefixes_def pin_ifaces_def unpinned_def Let_def ema_update_def rolling_update_def
        window_avg_def
        add_usage_def today_key_def mid_march_def pad4_def pad2_def digit_def empty_store_def
        zero_day_def iadd_field_def py_int_def notify_def save_def open_write_def os_replace_def
        value_codec_def blank_disk_def to_json_def

text \<open>
  C3. A run of three ticks whose first tick, at time 20, is due to save and finds the
  disk not writable: the \<^verbatim>\<open>OSError\<close> of \<^verbatim>\<open>save\<close> leaves \<^verbatim>\<open>run\<close>. Only that first tick
  has run, and nothing was saved afterwards. By contrast a failure of the
  save at exit is caught, and \<^verbatim>\<open>run\<close> returns.
\<close>

theorem failed_periodic_save_ends_the_loop:
  "fst (run value_codec ''data.json'' None
          (world [tick_at 20 False, tick_at (41 / 2) True, tick_at 21 True] True)
          (idle_monitor, blank_disk)) = Inl OSError
   \<and> hist_down (fst (snd (run value_codec ''data.json'' None
          (world [tick_at 20 False, tick_at (41 / 2) True, tick_at 21 True] True)
          (idle_monitor, blank_disk)))) = [(20, 1000)]
   \<and> nodes (snd (snd (run value_codec ''data.json'' None
          (world [tick_at 20 False, tick_at (41 / 2) True, tick_at 21 True] True)
          (idle_monitor, blank_disk)))) ''data.json'' = None
   \<and> fst (run value_codec ''data.json'' None
          (world [tick_at 21 True, tick_at (43 / 2) True] False)
          (idle_monitor, blank_disk)) = Inr ()"
  by (simp add: eval_defs)

text \<open>
  C4. A run of three ticks whose second tick cannot read the counters: the exception
  leaves \<^verbatim>\<open>run\<close>. Only the first tick has run, and the save at exit did not happen.
\<close>

theorem failed_counter_read_ends_the_loop:
  "fst (run value_codec ''data.json'' None
          (world [tick_at 21 True, failed_read_at (43 / 2), tick_at 22 True] True)
          (idle_monitor, blank_disk)) = Inl OSError
   \<and> hist_down (fst (snd (run value_codec ''data.json'' None
          (world [tick_at 21 True, failed_read_at (43 / 2), tick_at 22 True] True)
          (idle_monitor, blank_disk)))) = [(21, 1000 / 3)]
   \<and> nodes (snd (snd (run value_codec ''data.json'' None
          (world [tick_at 21 True, failed_read_at (43 / 2), tick_at 22 True] True)
          (idle_monitor, blank_disk)))) ''data.json'' = None"
  by (simp add: eval_defs)

subsection \<open>A data file of the wrong shape\<close>

text \<open>
  C7. \<^verbatim>\<open>load\<close> turns a missing file and a file it cannot parse into an empty ledger,
  but not a file that holds the JSON document \<^verbatim>\<open>{"by_day": 5}\<close>: that file is loaded as
  a store whose \<^verbatim>\<open>by_day\<close> is 5, which is neither empty nor a ledger. The monitor built
  on it raises \<^verbatim>\<open>TypeError\<close> in \<^verbatim>\<open>add_usage\<close> at its first tick, and the exception
  leaves \<^verbatim>\<open>run\<close>.
\<close>

theorem malformed_by_day_is_loaded_and_ends_the_loop:
  "load value_codec ''data.json'' bad_disk = Inr \<lparr>by_day = PInt 5\<rparr>
   \<and> \<lparr>by_day = PInt 5\<rparr> \<noteq> empty_store
   \<and> \<not> ledger_ok \<lparr>by_day = PInt 5\<rparr>
   \<and> new_monitor value_codec ''data.json'' bad_disk (1 / 2) unpinned =
        Inr (idle_monitor\<lparr>store := \<lparr>by_day = PInt 5\<rparr>\<rparr>)
   \<and> fst (run value_codec ''data.json'' None
          (world [tick_at 21 True, tick_at (43 / 2) True] True)
          (idle_monitor\<lparr>store := \<lparr>by_day = PInt 5\<rparr>\<rparr>, bad_disk)) = Inl TypeError"
proof -
  have ld: "load value_codec ''data.json'' bad_disk = Inr \<lparr>by_day = PInt 5\<rparr>"
    by (simp add: load_def load_try_def path_exists_def open_read_def bad_disk_def disk_with_def
          value_codec_def from_json_def)
  have ne: "\<lparr>by_day = PInt 5\<rparr> \<noteq> empty_store" by (simp add: empty_store_def)
  have nl: "\<not> ledger_ok \<lparr>by_day = PInt 5\<rparr>" by (simp add: ledger_ok_def)
  have nm: "new_monitor value_codec ''data.json'' bad_disk (1 / 2) unpinned =
        Inr (idle_monitor\<lparr>store := \<lparr>by_day = PInt 5\<rparr>\<rparr>)"
    by (simp add: new_monitor_def ld idle_monitor_def)
  have rn: "fst (run value_codec ''data.json'' None
          (world [tick_at 21 True, tick_at (43 / 2) True] True)
          (idle_monitor\<lparr>store := \<lparr>by_day = PInt 5\<rparr>\<rparr>, bad_disk)) = Inl TypeError"
    by (simp add: eval_defs bad_disk_def disk_with_def)
  from ld ne nl nm rn show ?thesis by simp
qed

end
